theory Spec2Isabelle
  imports Main "HOL-Library.Sublist"
begin

section \<open>Source maps for frontend stack frames (pkg/api/frontendlogging/source_maps.go)\<close>

text \<open>
  A shallow embedding of \<^verbatim>\<open>source_maps.go\<close>. Go strings and byte slices are byte
  sequences (\<open>string\<close>, a list of 8-bit characters); \<^verbatim>\<open>strings.HasPrefix(s, p)\<close> is
  \<open>prefix p s\<close>, and \<^verbatim>\<open>s[n:]\<close> is \<open>drop n s\<close> (it is only taken where the prefix test
  has shown \<open>n \<le> length s\<close>, so the slice expression cannot panic). Go's \<^verbatim>\<open>int\<close> values
  (line and column numbers) are only passed along, never computed with, so they are \<open>int\<close>.

  A function returning \<^verbatim>\<open>(value, error)\<close> returns a sum, \<open>Inl\<close> the error; a pointer result
  that may be \<^verbatim>\<open>nil\<close> is an \<open>option\<close>. The functions that change the store take it and
  return it. The pointers the code dereferences without a test (the store, its \<^verbatim>\<open>cfg\<close>, the
  routes, the consumer of a parsed map) are taken to be set, as the constructor and the
  libraries leave them. The packages \<^verbatim>\<open>net/url\<close> and \<^verbatim>\<open>sourcemap\<close> are not part of this
  repository: their functions are parameters of the model. \<^verbatim>\<open>path/filepath\<close> is modelled,
  for the separator of Unix.
\<close>

subsection \<open>Errors\<close>

text \<open>
  A Go \<^verbatim>\<open>error\<close> value. The only thing the code ever asks of an error is
  \<^verbatim>\<open>os.IsNotExist(err)\<close>, so errors are classified by the answer to that question and carry
  their message.
\<close>

datatype error = NotExist string | OtherError string

fun os_IsNotExist :: "error \<Rightarrow> bool" where
  "os_IsNotExist (NotExist _) = True"
| "os_IsNotExist (OtherError _) = False"

subsection \<open>Lexical path operations of the Go standard library (Unix separators)\<close>

text \<open>\<^verbatim>\<open>strings.Split(s, "/")\<close>: the pieces of \<open>s\<close> between separators; never empty.\<close>

fun splitSep :: "string \<Rightarrow> string list" where
  "splitSep [] = [[]]"
| "splitSep (c # cs) =
     (if c = CHR ''/'' then [] # splitSep cs
      else (case splitSep cs of [] \<Rightarrow> [[c]] | x # xs \<Rightarrow> (c # x) # xs))"

text \<open>\<^verbatim>\<open>strings.Join(elems, "/")\<close>.\<close>

fun joinSep :: "string list \<Rightarrow> string" where
  "joinSep [] = []"
| "joinSep [x] = x"
| "joinSep (x # y # ys) = x @ ''/'' @ joinSep (y # ys)"

text \<open>
  One step of the loop of \<^verbatim>\<open>filepath.Clean\<close>, on a whole path element \<open>e\<close>; \<open>out\<close> is
  the output so far, last element first. An empty element and \<^verbatim>\<open>.\<close> are dropped. For
  \<^verbatim>\<open>..\<close>: the last element written is removed when there is one that is not itself a
  leading \<^verbatim>\<open>..\<close> (Go: \<^verbatim>\<open>out.w > dotdot\<close>); otherwise \<^verbatim>\<open>..\<close> is written when the path is
  not rooted and dropped when it is. Every other element is written.
\<close>

fun cleanStep :: "bool \<Rightarrow> string list \<Rightarrow> string \<Rightarrow> string list" where
  "cleanStep rooted out e =
     (if e = [] \<or> e = ''.'' then out
      else if e = ''..'' then
        (case out of
           x # xs \<Rightarrow> if x \<noteq> ''..'' then xs else if rooted then out else e # out
         | [] \<Rightarrow> if rooted then out else e # out)
      else e # out)"

text \<open>
  \<^verbatim>\<open>filepath.Clean(path)\<close>: the empty path is \<^verbatim>\<open>.\<close>; separators are collapsed, \<^verbatim>\<open>.\<close>
  elements removed, inner \<^verbatim>\<open>..\<close> elements removed together with the element before them,
  \<^verbatim>\<open>..\<close> elements at the start of a rooted path removed; an empty result is \<^verbatim>\<open>.\<close>.
\<close>

definition filepath_Clean :: "string \<Rightarrow> string" where
  "filepath_Clean p =
     (if p = [] then ''.''
      else let rooted = (hd p = CHR ''/'');
               out = rev (foldl (cleanStep rooted) [] (splitSep p));
               s = (if rooted then ''/'' else []) @ joinSep out
           in if s = [] then ''.'' else s)"

text \<open>
  \<^verbatim>\<open>filepath.Join(elem...)\<close>: leading empty elements are ignored, the rest is joined with
  the separator and cleaned; the result is empty when every element is.
\<close>

definition filepath_Join :: "string list \<Rightarrow> string" where
  "filepath_Join elem =
     (case dropWhile (\<lambda>e. e = []) elem of
        [] \<Rightarrow> []
      | es \<Rightarrow> filepath_Clean (joinSep es))"

text \<open>
  Two ways of speaking about path elements: a list of elements as \<^verbatim>\<open>filepath.Clean\<close> writes
  them for a rooted path (none empty, none \<^verbatim>\<open>..\<close>, none with a separator inside), and an
  element that names a file or directory (not empty, not \<^verbatim>\<open>.\<close>, not \<^verbatim>\<open>..\<close>, no separator).
\<close>

definition plainElems :: "string list \<Rightarrow> bool" where
  "plainElems out \<longleftrightarrow> (\<forall>x \<in> set out. x \<noteq> [] \<and> x \<noteq> ''..'' \<and> CHR ''/'' \<notin> set x)"

definition properElem :: "string \<Rightarrow> bool" where
  "properElem x \<longleftrightarrow> x \<noteq> [] \<and> x \<noteq> ''.'' \<and> x \<noteq> ''..'' \<and> CHR ''/'' \<notin> set x"

subsection \<open>Data model\<close>

record sourceMapLocation =
  dir :: string
  path :: string
  pluginID :: string

text \<open>
  \<^verbatim>\<open>sourceMap\<close>: the parsed map (\<open>'c\<close> stands for \<^verbatim>\<open>*sourcemap.Consumer\<close>, opaque to this
  package) and the identifier of the plugin that owns it. The second field is
  \<^verbatim>\<open>pluginID\<close> in the source; it is \<open>smapPluginID\<close> here because record fields share one
  name space.
\<close>

record 'c sourceMap =
  consumer :: 'c
  smapPluginID :: string

text \<open>\<^verbatim>\<open>plugins.PluginStaticRoute\<close>, an entry of the global \<^verbatim>\<open>plugins.StaticRoutes\<close>.\<close>

record PluginStaticRoute =
  Directory :: string
  PluginId :: string

text \<open>\<^verbatim>\<open>setting.Cfg\<close>, of which this file reads one field.\<close>

record Cfg =
  StaticRootPath :: string

text \<open>
  \<^verbatim>\<open>sentry.Frame\<close> (package sentry-go), with its zero value: what a Go composite literal
  leaves in the fields it does not name. \<^verbatim>\<open>Vars\<close> is a Go map from names to values of any
  type, here a list of pairs; its zero value is the empty one.
\<close>

record Frame =
  Function :: string
  Symbol :: string
  Module :: string
  Package :: string
  Filename :: string
  AbsPath :: string
  Lineno :: int
  Colno :: int
  PreContext :: "string list"
  ContextLine :: string
  PostContext :: "string list"
  InApp :: bool
  Vars :: "(string \<times> string) list"

definition zeroFrame :: Frame where
  "zeroFrame =
     \<lparr>Function = [], Symbol = [], Module = [], Package = [], Filename = [], AbsPath = [],
      Lineno = 0, Colno = 0, PreContext = [], ContextLine = [], PostContext = [],
      InApp = False, Vars = []\<rparr>"

text \<open>
  What lies outside this package, as it stands at the time of one call: \<open>world\<close> is whatever
  the injected reader looks at (the file system), \<open>StaticRoutes\<close> the global route list of
  package plugins, and the three library functions are
  \<^item> \<open>url_Parse\<close>: \<^verbatim>\<open>url.Parse\<close>, giving the parsed URL's \<^verbatim>\<open>Path\<close>, or the syntax error;
  \<^item> \<open>sourcemap_Parse\<close>: \<^verbatim>\<open>sourcemap.Parse(mapURL, bytes)\<close>;
  \<^item> \<open>Source\<close>: \<^verbatim>\<open>consumer.Source(line, column)\<close>, giving
    \<^verbatim>\<open>(source, name, line, column, ok)\<close>.
\<close>

record ('w, 'c) env =
  world :: 'w
  StaticRoutes :: "PluginStaticRoute list"
  url_Parse :: "string \<Rightarrow> error + string"
  sourcemap_Parse :: "string \<Rightarrow> string \<Rightarrow> error + 'c"
  Source :: "'c \<Rightarrow> int \<Rightarrow> int \<Rightarrow> string \<times> string \<times> int \<times> int \<times> bool"

text \<open>
  \<^verbatim>\<open>ReadSourceMapFn\<close>: a Go function with effects, so its result depends on the world it
  runs in as well as on \<^verbatim>\<open>(dir, path)\<close>.
\<close>

type_synonym 'w ReadSourceMapFn = "'w \<Rightarrow> string \<Rightarrow> string \<Rightarrow> error + string"

text \<open>
  \<^verbatim>\<open>ReadSourceMapFromFs\<close>, the reader used in production. Its world is the file system:
  \<^verbatim>\<open>os.Open\<close> on a full name and \<^verbatim>\<open>ioutil.ReadAll\<close> on the opened file. \<^verbatim>\<open>http.Dir(dir).Open\<close>
  of the standard library opens \<^verbatim>\<open>filepath.Join(dir, path.Clean("/" + name))\<close>, with \<^verbatim>\<open>.\<close>
  for an empty \<^verbatim>\<open>dir\<close>. The deferred \<^verbatim>\<open>Close\<close> only logs its error and has no part in the
  result.
\<close>

record 'f filesystem =
  os_Open :: "string \<Rightarrow> error + 'f"
  ioutil_ReadAll :: "'f \<Rightarrow> error + string"

definition http_Dir_Open :: "'f filesystem \<Rightarrow> string \<Rightarrow> string \<Rightarrow> error + 'f" where
  "http_Dir_Open w d name =
     os_Open w (filepath_Join [if d = [] then ''.'' else d, filepath_Clean (''/'' @ name)])"

definition ReadSourceMapFromFs :: "'f filesystem ReadSourceMapFn" where
  "ReadSourceMapFromFs w d p =
     (case http_Dir_Open w d p of
        Inl err \<Rightarrow> Inl err
      | Inr file \<Rightarrow> ioutil_ReadAll w file)"

text \<open>
  The calls a store makes to its collaborators, each tagged with the source URL it was made
  for: the location guess, the reader with its directory and path, the parser with the map
  URL and the bytes.
\<close>

datatype event =
  Guessed string
| Read string string string
| Parsed string string string

fun eventURL :: "event \<Rightarrow> string" where
  "eventURL (Guessed u) = u"
| "eventURL (Read u _ _) = u"
| "eventURL (Parsed u _ _) = u"

text \<open>
  \<^verbatim>\<open>SourceMapStore\<close>. The cache is a Go map to pointers: a URL is absent (\<open>None\<close>), present
  with \<^verbatim>\<open>nil\<close> (\<open>Some None\<close>) or present with a map (\<open>Some (Some m)\<close>). The mutex has no
  counterpart: calls are modelled one after the other. \<open>history\<close> is not a field of the Go
  struct: it records, in order, the calls made to the collaborators, so that "is not invoked
  again" can be stated.
\<close>

record ('w, 'c) SourceMapStore =
  cache :: "string \<rightharpoonup> 'c sourceMap option"
  cfg :: Cfg
  readSourceMap :: "'w ReadSourceMapFn"
  history :: "event list"

definition NewSourceMapStore :: "Cfg \<Rightarrow> 'w ReadSourceMapFn \<Rightarrow> ('w, 'c) SourceMapStore" where
  "NewSourceMapStore c r = \<lparr>cache = Map.empty, cfg = c, readSourceMap = r, history = []\<rparr>"

definition record_event :: "event \<Rightarrow> ('w, 'c) SourceMapStore \<Rightarrow> ('w, 'c) SourceMapStore" where
  "record_event ev store = store\<lparr>history := history store @ [ev]\<rparr>"

subsection \<open>guessSourceMapLocation\<close>

text \<open>The loop over \<^verbatim>\<open>plugins.StaticRoutes\<close>: the first route whose prefix matches wins.\<close>

fun matchRoute :: "string \<Rightarrow> PluginStaticRoute list \<Rightarrow> sourceMapLocation option" where
  "matchRoute p [] = None"
| "matchRoute p (route # routes) =
     (let pluginPrefix = filepath_Join [''/public/plugins/'', PluginId route]
      in if prefix pluginPrefix p
         then Some \<lparr>dir = Directory route,
                    path = drop (length pluginPrefix) p @ ''.map'',
                    pluginID = PluginId route\<rparr>
         else matchRoute p routes)"

definition guessSourceMapLocation ::
  "('w, 'c) env \<Rightarrow> ('w, 'c) SourceMapStore \<Rightarrow> string \<Rightarrow> error + sourceMapLocation option" where
  "guessSourceMapLocation e store sourceURL =
     (case url_Parse e sourceURL of
        Inl err \<Rightarrow> Inl err
      | Inr p \<Rightarrow>
          if prefix ''/public/build/'' p
          then Inr (Some \<lparr>dir = StaticRootPath (cfg store),
                          path = filepath_Join [''build'', drop (length ''/public/build/'') p] @ ''.map'',
                          pluginID = []\<rparr>)
          else if prefix ''/public/plugins/'' p
          then Inr (matchRoute p (StaticRoutes e))
          else Inr None)"

subsection \<open>getSourceMap\<close>

text \<open>Lines 102 to 106: the path handed to the reader.\<close>

definition readerPath :: "string \<Rightarrow> string" where
  "readerPath p = filepath_Clean (if prefix ''/'' p then ''/'' @ p else p)"

definition getSourceMap ::
  "('w, 'c) env \<Rightarrow> ('w, 'c) SourceMapStore \<Rightarrow> string
     \<Rightarrow> ('w, 'c) SourceMapStore \<times> (error + 'c sourceMap option)" where
  "getSourceMap e store sourceURL =
     (case cache store sourceURL of
        Some smap \<Rightarrow> (store, Inr smap)
      | None \<Rightarrow>
         (let store1 = record_event (Guessed sourceURL) store in
          case guessSourceMapLocation e store sourceURL of
            Inl err \<Rightarrow> (store1, Inl err)
          | Inr None \<Rightarrow> (store1\<lparr>cache := (cache store1)(sourceURL \<mapsto> None)\<rparr>, Inr None)
          | Inr (Some loc) \<Rightarrow>
             (let p = readerPath (path loc);
                  store2 = record_event (Read sourceURL (dir loc) p) store1 in
              case readSourceMap store (world e) (dir loc) p of
                Inl err \<Rightarrow>
                  if os_IsNotExist err
                  then (store2\<lparr>cache := (cache store2)(sourceURL \<mapsto> None)\<rparr>, Inr None)
                  else (store2, Inl err)
              | Inr b \<Rightarrow>
                 (let store3 = record_event (Parsed sourceURL (sourceURL @ ''.map'') b) store2 in
                  case sourcemap_Parse e (sourceURL @ ''.map'') b of
                    Inl err \<Rightarrow> (store3, Inl err)
                  | Inr c \<Rightarrow>
                     (let smap = \<lparr>consumer = c, smapPluginID = pluginID loc\<rparr>
                      in (store3\<lparr>cache := (cache store3)(sourceURL \<mapsto> Some smap)\<rparr>,
                          Inr (Some smap)))))))"

subsection \<open>resolveSourceLocation\<close>

definition resolveSourceLocation ::
  "('w, 'c) env \<Rightarrow> ('w, 'c) SourceMapStore \<Rightarrow> Frame
     \<Rightarrow> ('w, 'c) SourceMapStore \<times> (error + Frame option)" where
  "resolveSourceLocation e store frame =
     (case getSourceMap e store (Filename frame) of
        (store', Inl err) \<Rightarrow> (store', Inl err)
      | (store', Inr None) \<Rightarrow> (store', Inr None)
      | (store', Inr (Some smap)) \<Rightarrow>
         (case Source e (consumer smap) (Lineno frame) (Colno frame) of
            (file, fn, line, col, ok) \<Rightarrow>
              if \<not> ok then (store', Inr None)
              else
               (let fn' = (if length fn = 0 then ''?'' else fn);
                    module = (if length (smapPluginID smap) > 0 then smapPluginID smap
                              else ''core'')
                in (store',
                    Inr (Some (zeroFrame\<lparr>Filename := file, Lineno := line, Colno := col,
                                          Function := fn', Module := module\<rparr>))))))"

text \<open>A store's lifetime: any sequence of lookups, each in the surroundings of its moment.\<close>

fun getSourceMaps ::
  "(('w, 'c) env \<times> string) list \<Rightarrow> ('w, 'c) SourceMapStore \<Rightarrow> ('w, 'c) SourceMapStore" where
  "getSourceMaps [] store = store"
| "getSourceMaps ((e, u) # calls) store = getSourceMaps calls (fst (getSourceMap e store u))"

subsection \<open>A concrete store for worked examples\<close>

text \<open>
  Stand-ins for the collaborators, in the manner of an in-memory test double: the world is a
  table of files, a parsed map is a table from generated positions to original ones, the
  parser knows two map files by their contents, and every string but one is a URL that
  consists of a path only.
\<close>

type_synonym demoFiles = "((string \<times> string) \<times> string) list"

type_synonym demoConsumer = "((int \<times> int) \<times> (string \<times> string \<times> int \<times> int)) list"

definition demoRead :: "demoFiles ReadSourceMapFn" where
  "demoRead files d p =
     (case map_of files (d, p) of
        None \<Rightarrow> Inl (NotExist p)
      | Some b \<Rightarrow> if b = ''locked'' then Inl (OtherError ''permission denied'') else Inr b)"

definition demoSource :: "demoConsumer \<Rightarrow> int \<Rightarrow> int \<Rightarrow> string \<times> string \<times> int \<times> int \<times> bool" where
  "demoSource c l k =
     (case map_of c (l, k) of
        None \<Rightarrow> ([], [], 0, 0, False)
      | Some (f, n, l', k') \<Rightarrow> (f, n, l', k', True))"

definition demoParse :: "string \<Rightarrow> string \<Rightarrow> error + demoConsumer" where
  "demoParse mapURL b =
     (if b = ''core map''
      then Inr [((1, 5), (''app/main.ts'', ''render'', 10, 2)),
                ((2, 7), (''app/main.ts'', [], 20, 4))]
      else if b = ''plugin map''
      then Inr [((3, 1), (''src/module.ts'', ''init'', 30, 6))]
      else Inl (OtherError ''sourcemap: invalid JSON''))"

definition demoURL :: "string \<Rightarrow> error + string" where
  "demoURL u = (if u = ''%zz'' then Inl (OtherError ''invalid URL escape'') else Inr u)"

definition demoEnv :: "(demoFiles, demoConsumer) env" where
  "demoEnv =
     \<lparr>world = [((''/usr/share/grafana/public'', ''build/app.js.map''), ''core map''),
               ((''/usr/share/grafana/public'', ''build/broken.js.map''), ''{''),
               ((''/usr/share/grafana/public'', ''build/locked.js.map''), ''locked''),
               ((''/var/lib/grafana/plugins/acme-panel'', ''/module.js.map''), ''plugin map'')],
      StaticRoutes = [\<lparr>Directory = ''/var/lib/grafana/plugins/acme-panel'',
                       PluginId = ''acme-panel''\<rparr>],
      url_Parse = demoURL,
      sourcemap_Parse = demoParse,
      Source = demoSource\<rparr>"

definition demoStore :: "(demoFiles, demoConsumer) SourceMapStore" where
  "demoStore = NewSourceMapStore \<lparr>StaticRootPath = ''/usr/share/grafana/public''\<rparr> demoRead"

text \<open>The store after the map of \<^verbatim>\<open>/public/build/app.js\<close> has been loaded into it.\<close>

definition demoLoaded :: "(demoFiles, demoConsumer) SourceMapStore" where
  "demoLoaded = fst (getSourceMap demoEnv demoStore ''/public/build/app.js'')"

text \<open>A frame as a browser reports it, with more fields filled in than the resolver reads.\<close>

definition demoFrame :: Frame where
  "demoFrame =
     zeroFrame\<lparr>Filename := ''/public/build/app.js'', Lineno := 1, Colno := 5,
               Function := ''t'', AbsPath := ''https://grafana.example/public/build/app.js'',
               ContextLine := ''!function(e){var t={};'', InApp := True\<rparr>"

text \<open>The map that the parser stand-in makes of the core map file.\<close>

definition demoCoreMap :: "demoConsumer sourceMap" where
  "demoCoreMap =
     \<lparr>consumer = [((1, 5), (''app/main.ts'', ''render'', 10, 2)),
                  ((2, 7), (''app/main.ts'', [], 20, 4))],
      smapPluginID = []\<rparr>"

text \<open>The same surroundings with a second plugin registered ahead of the first.\<close>

definition demoRoutesEnv :: "(demoFiles, demoConsumer) env" where
  "demoRoutesEnv =
     demoEnv\<lparr>StaticRoutes :=
       [\<lparr>Directory = ''/var/lib/grafana/plugins/acme'', PluginId = ''acme''\<rparr>,
        \<lparr>Directory = ''/var/lib/grafana/plugins/acme-panel'', PluginId = ''acme-panel''\<rparr>]\<rparr>"

text \<open>The surroundings at a later time, when the locked map file has become readable.\<close>

definition demoLaterEnv :: "(demoFiles, demoConsumer) env" where
  "demoLaterEnv =
     demoEnv\<lparr>world :=
       [((''/usr/share/grafana/public'', ''build/locked.js.map''), ''core map'')]\<rparr>"

section \<open>Properties\<close>

subsection \<open>Lexical paths\<close>

lemma splitSep_not_Nil: "splitSep p \<noteq> []"
  by (induction p) (auto split: list.splits)

lemma splitSep_no_sep: "x \<in> set (splitSep p) \<Longrightarrow> CHR ''/'' \<notin> set x"
  by (induction p arbitrary: x) (auto split: if_splits list.splits)

lemma splitSep_plain: "CHR ''/'' \<notin> set x \<Longrightarrow> splitSep x = [x]"
  by (induction x) auto

lemma splitSep_append:
  "CHR ''/'' \<notin> set x \<Longrightarrow> splitSep (x @ CHR ''/'' # r) = x # splitSep r"
  by (induction x) auto

lemma splitSep_joinSep:
  "xs \<noteq> [] \<Longrightarrow> \<forall>x \<in> set xs. CHR ''/'' \<notin> set x \<Longrightarrow> splitSep (joinSep xs) = xs"
  by (induction xs rule: joinSep.induct) (auto simp: splitSep_plain splitSep_append)

lemma cleanStep_rooted_plain:
  "plainElems out \<Longrightarrow> CHR ''/'' \<notin> set e \<Longrightarrow> plainElems (cleanStep True out e)"
  by (auto simp: plainElems_def split: list.splits)

lemma foldl_cleanStep_rooted_plain:
  "plainElems out \<Longrightarrow> \<forall>e \<in> set es. CHR ''/'' \<notin> set e \<Longrightarrow>
   plainElems (foldl (cleanStep True) out es)"
proof (induction es arbitrary: out)
  case Nil
  then show ?case by simp
next
  case (Cons e es)
  from Cons.prems have "plainElems (cleanStep True out e)"
    by (intro cleanStep_rooted_plain) simp_all
  with Cons show ?case by simp
qed

text \<open>A cleaned rooted path has no \<^verbatim>\<open>..\<close> element.\<close>

lemma Clean_rooted_elems:
  "''..'' \<notin> set (splitSep (filepath_Clean (CHR ''/'' # q)))"
proof -
  let ?out = "rev (foldl (cleanStep True) [] (splitSep (CHR ''/'' # q)))"
  have "plainElems (foldl (cleanStep True) [] (splitSep (CHR ''/'' # q)))"
    by (intro foldl_cleanStep_rooted_plain)
       (auto simp: plainElems_def dest: splitSep_no_sep simp del: splitSep.simps)
  then have plain: "plainElems ?out" by (simp add: plainElems_def)
  have c: "filepath_Clean (CHR ''/'' # q) = CHR ''/'' # joinSep ?out"
    by (simp add: filepath_Clean_def Let_def)
  show ?thesis
  proof (cases "?out = []")
    case True
    with c show ?thesis by simp
  next
    case False
    with plain have "splitSep (joinSep ?out) = ?out"
      by (intro splitSep_joinSep) (auto simp: plainElems_def)
    with c plain show ?thesis by (auto simp: plainElems_def)
  qed
qed

text \<open>A path of proper elements is clean already.\<close>

lemma cleanStep_proper: "properElem x \<Longrightarrow> cleanStep r out x = x # out"
  by (simp add: properElem_def)

lemma foldl_cleanStep_proper:
  "\<forall>x \<in> set es. properElem x \<Longrightarrow> foldl (cleanStep r) out es = rev es @ out"
  by (induction es arbitrary: out) (simp_all add: cleanStep_proper del: cleanStep.simps)

lemma joinSep_Cons: "es \<noteq> [] \<Longrightarrow> joinSep (x # es) = x @ CHR ''/'' # joinSep es"
  by (cases es) auto

lemma properElem_hd: "properElem x \<Longrightarrow> x \<noteq> [] \<and> hd x \<noteq> CHR ''/''"
  unfolding properElem_def by (cases x) auto

lemma joinSep_hd:
  assumes "es \<noteq> []" "\<forall>x \<in> set es. properElem x"
  shows "joinSep es \<noteq> [] \<and> hd (joinSep es) \<noteq> CHR ''/''"
proof -
  from assms(1) obtain x r where es: "es = x # r" by (cases es) auto
  with assms(2) have x: "x \<noteq> []" "hd x \<noteq> CHR ''/''" using properElem_hd by auto
  show ?thesis
  proof (cases r)
    case Nil
    with es x show ?thesis by simp
  next
    case (Cons y ys)
    with es x show ?thesis by (simp add: hd_append)
  qed
qed

lemma Clean_proper:
  assumes "es \<noteq> []" "\<forall>x \<in> set es. properElem x"
  shows "filepath_Clean (joinSep es) = joinSep es"
proof -
  from assms have s: "splitSep (joinSep es) = es"
    by (intro splitSep_joinSep) (auto simp: properElem_def)
  from assms have f: "foldl (cleanStep False) [] es = rev es"
    by (simp add: foldl_cleanStep_proper)
  from assms joinSep_hd have "joinSep es \<noteq> []" "hd (joinSep es) \<noteq> CHR ''/''" by blast+
  with s f show ?thesis by (simp add: filepath_Clean_def Let_def)
qed

text \<open>The prefix of a plugin whose identifier is a proper path element.\<close>

lemma Join_plugin_prefix:
  assumes "properElem i"
  shows "filepath_Join [''/public/plugins/'', i] = ''/public/plugins/'' @ i"
proof -
  from assms have i: "i \<noteq> []" "i \<noteq> ''.''" "i \<noteq> ''..''" "CHR ''/'' \<notin> set i"
    by (simp_all add: properElem_def)
  have "splitSep (''/public/plugins//'' @ i) = [[], ''public'', ''plugins'', [], i]"
    using i(4) by (simp add: splitSep_plain)
  moreover have "foldl (cleanStep True) [] [[], ''public'', ''plugins'', [], i]
      = [i, ''plugins'', ''public'']"
    using i by simp
  ultimately have "filepath_Clean (''/public/plugins//'' @ i) = ''/public/plugins/'' @ i"
    by (simp add: filepath_Clean_def Let_def)
  then show ?thesis by (simp add: filepath_Join_def)
qed

text \<open>
  The production reader opens, below its directory, a rooted name without \<^verbatim>\<open>..\<close>
  elements.
\<close>

lemma ReadSourceMapFromFs_scoped:
  "\<exists>c. prefix ''/'' c \<and> ''..'' \<notin> set (splitSep c)
     \<and> ReadSourceMapFromFs w d p =
         (case os_Open w (filepath_Join [if d = [] then ''.'' else d, c]) of
            Inl err \<Rightarrow> Inl err
          | Inr file \<Rightarrow> ioutil_ReadAll w file)"
proof -
  let ?c = "filepath_Clean (''/'' @ p)"
  have "prefix ''/'' ?c" by (simp add: filepath_Clean_def Let_def)
  moreover have "''..'' \<notin> set (splitSep ?c)" using Clean_rooted_elems [of p] by simp
  ultimately show ?thesis
    by (intro exI [of _ ?c]) (simp add: ReadSourceMapFromFs_def http_Dir_Open_def)
qed

subsection \<open>Cache and history\<close>

lemma getSourceMap_cached:
  "cache store u = Some r \<Longrightarrow> getSourceMap e store u = (store, Inr r)"
  by (simp add: getSourceMap_def)

lemma history_record_event [simp]: "history (record_event ev s) = history s @ [ev]"
  by (simp add: record_event_def)

lemma cache_record_event [simp]: "cache (record_event ev s) = cache s"
  by (simp add: record_event_def)

text \<open>A lookup only adds to the history, only events for its own URL, and none on a hit.\<close>

lemma getSourceMap_history:
  "\<exists>new. history (fst (getSourceMap e store u)) = history store @ new
         \<and> (\<forall>ev \<in> set new. eventURL ev = u) \<and> (cache store u \<noteq> None \<longrightarrow> new = [])"
  by (auto simp: getSourceMap_def Let_def split: option.splits sum.splits)

text \<open>A cache entry, once there, stays as it is.\<close>

lemma getSourceMap_cache_kept:
  "cache store v = Some r \<Longrightarrow> cache (fst (getSourceMap e store u)) v = Some r"
  by (auto simp: getSourceMap_def Let_def split: option.splits sum.splits)

lemma getSourceMaps_cache_kept:
  "cache store v = Some r \<Longrightarrow> cache (getSourceMaps calls store) v = Some r"
  by (induction calls arbitrary: store) (auto simp: getSourceMap_cache_kept)

lemma getSourceMaps_history:
  "cache store v = Some r \<Longrightarrow>
   \<exists>new. history (getSourceMaps calls store) = history store @ new
         \<and> (\<forall>ev \<in> set new. eventURL ev \<noteq> v)"
proof (induction calls arbitrary: store)
  case Nil
  then show ?case by simp
next
  case (Cons c calls)
  obtain e u where c: "c = (e, u)" by (cases c)
  let ?s = "fst (getSourceMap e store u)"
  obtain n1 where n1: "history ?s = history store @ n1"
    "\<forall>ev \<in> set n1. eventURL ev = u" "cache store u \<noteq> None \<longrightarrow> n1 = []"
    using getSourceMap_history [of e store u] by blast
  have kept: "cache ?s v = Some r" using Cons.prems by (rule getSourceMap_cache_kept)
  obtain n2 where n2: "history (getSourceMaps calls ?s) = history ?s @ n2"
    "\<forall>ev \<in> set n2. eventURL ev \<noteq> v"
    using Cons.IH [OF kept] by blast
  have "\<forall>ev \<in> set n1. eventURL ev \<noteq> v"
  proof (cases "u = v")
    case True
    with Cons.prems n1(3) show ?thesis by simp
  next
    case False
    with n1(2) show ?thesis by simp
  qed
  with n1 n2 c show ?case by auto
qed

text \<open>The configuration and the reader of a store never change.\<close>

lemma getSourceMap_fields:
  "cfg (fst (getSourceMap e store u)) = cfg store \<and>
   readSourceMap (fst (getSourceMap e store u)) = readSourceMap store"
  by (auto simp: getSourceMap_def Let_def record_event_def split: option.splits sum.splits)

text \<open>A map that a lookup returns is the entry the cache then holds.\<close>

lemma getSourceMap_Some_cached:
  "getSourceMap e store u = (store', Inr (Some m)) \<Longrightarrow> cache store' u = Some (Some m)"
  by (auto simp: getSourceMap_def Let_def split: option.splits sum.splits if_splits)

text \<open>A map loaded on a miss carries the plugin identifier of the guessed location.\<close>

lemma getSourceMap_fresh_pluginID:
  "cache store u = None \<Longrightarrow> getSourceMap e store u = (store', Inr (Some m)) \<Longrightarrow>
   \<exists>loc. guessSourceMapLocation e store u = Inr (Some loc) \<and> smapPluginID m = pluginID loc"
  by (auto simp: getSourceMap_def Let_def split: option.splits sum.splits if_splits)

subsection \<open>The outcomes of a lookup that misses the cache\<close>

lemma guess_cfg_only:
  "cfg s2 = cfg s1 \<Longrightarrow> guessSourceMapLocation e s2 u = guessSourceMapLocation e s1 u"
  by (simp add: guessSourceMapLocation_def split: sum.splits)

lemma guess_unknown:
  "url_Parse e u = Inr p \<Longrightarrow> \<not> prefix ''/public/build/'' p \<Longrightarrow>
   \<not> prefix ''/public/plugins/'' p \<Longrightarrow> guessSourceMapLocation e store u = Inr None"
  by (simp add: guessSourceMapLocation_def)

lemma getSourceMap_unknown:
  "cache store u = None \<Longrightarrow> guessSourceMapLocation e store u = Inr None \<Longrightarrow>
   getSourceMap e store u =
     (record_event (Guessed u) store\<lparr>cache := (cache store)(u \<mapsto> None)\<rparr>, Inr None)"
  by (simp add: getSourceMap_def Let_def)

lemma getSourceMap_not_found:
  "cache store u = None \<Longrightarrow> guessSourceMapLocation e store u = Inr (Some loc) \<Longrightarrow>
   readSourceMap store (world e) (dir loc) (readerPath (path loc)) = Inl err \<Longrightarrow>
   os_IsNotExist err \<Longrightarrow>
   getSourceMap e store u =
     (record_event (Read u (dir loc) (readerPath (path loc))) (record_event (Guessed u) store)
        \<lparr>cache := (cache store)(u \<mapsto> None)\<rparr>, Inr None)"
  by (simp add: getSourceMap_def Let_def)

lemma getSourceMap_read_error:
  "cache store u = None \<Longrightarrow> guessSourceMapLocation e store u = Inr (Some loc) \<Longrightarrow>
   readSourceMap store (world e) (dir loc) (readerPath (path loc)) = Inl err \<Longrightarrow>
   \<not> os_IsNotExist err \<Longrightarrow>
   getSourceMap e store u =
     (record_event (Read u (dir loc) (readerPath (path loc))) (record_event (Guessed u) store),
      Inl err)"
  by (simp add: getSourceMap_def Let_def)

lemma getSourceMap_parse_error:
  "cache store u = None \<Longrightarrow> guessSourceMapLocation e store u = Inr (Some loc) \<Longrightarrow>
   readSourceMap store (world e) (dir loc) (readerPath (path loc)) = Inr b \<Longrightarrow>
   sourcemap_Parse e (u @ ''.map'') b = Inl err \<Longrightarrow>
   getSourceMap e store u =
     (record_event (Parsed u (u @ ''.map'') b)
        (record_event (Read u (dir loc) (readerPath (path loc)))
           (record_event (Guessed u) store)),
      Inl err)"
  by (simp add: getSourceMap_def Let_def)

text \<open>What a lookup that misses the cache asks of its collaborators, whatever they answer.\<close>

lemma getSourceMap_miss_history:
  "cache store u = None \<Longrightarrow> guessSourceMapLocation e store u = Inr (Some loc) \<Longrightarrow>
   history (fst (getSourceMap e store u)) =
     history store @ Guessed u # Read u (dir loc) (readerPath (path loc)) #
       (case readSourceMap store (world e) (dir loc) (readerPath (path loc)) of
          Inl err \<Rightarrow> []
        | Inr b \<Rightarrow> [Parsed u (u @ ''.map'') b])"
  by (auto simp: getSourceMap_def Let_def split: sum.splits)

text \<open>
  The guard of lines 103 to 105 changes nothing: where it adds a separator, the path already
  starts with one, and \<^verbatim>\<open>filepath.Clean\<close> collapses the two.
\<close>

lemma readerPath_guard_idle: "readerPath p = filepath_Clean p"
proof (cases "prefix ''/'' p")
  case True
  then obtain q where p: "p = CHR ''/'' # q" by (cases p) auto
  show ?thesis by (simp add: readerPath_def filepath_Clean_def p)
next
  case False
  then show ?thesis by (simp add: readerPath_def)
qed

text \<open>
  A path that starts with a separator reaches the reader without any \<^verbatim>\<open>..\<close> element.
\<close>

lemma readerPath_rooted_elems:
  "prefix ''/'' p \<Longrightarrow> ''..'' \<notin> set (splitSep (readerPath p))"
proof -
  assume "prefix ''/'' p"
  then obtain q where "p = CHR ''/'' # q" by (cases p) auto
  then show ?thesis by (simp only: readerPath_guard_idle Clean_rooted_elems not_False_eq_True)
qed

text \<open>
  For a core asset whose path below \<^verbatim>\<open>/public/build/\<close> consists of proper elements, the
  guessed path is that path under \<^verbatim>\<open>build/\<close> with \<^verbatim>\<open>.map\<close> appended.
\<close>

lemma guess_build_plain:
  assumes "url_Parse e u = Inr (''/public/build/'' @ joinSep es)"
      and "es \<noteq> []" "\<forall>x \<in> set es. properElem x"
  shows "guessSourceMapLocation e store u =
           Inr (Some \<lparr>dir = StaticRootPath (cfg store),
                      path = ''build/'' @ joinSep es @ ''.map'', pluginID = []\<rparr>)"
proof -
  have "properElem ''build''" by (simp add: properElem_def)
  with assms have "filepath_Clean (joinSep (''build'' # es)) = joinSep (''build'' # es)"
    by (intro Clean_proper) simp_all
  moreover from assms(2) have "joinSep es \<noteq> []" using joinSep_hd assms(3) by blast
  ultimately have "filepath_Join [''build'', joinSep es] = ''build/'' @ joinSep es"
    using assms(2) by (simp add: filepath_Join_def joinSep_Cons)
  with assms(1) show ?thesis by (simp add: guessSourceMapLocation_def)
qed

subsection \<open>What the frame resolver returns\<close>

lemma resolve_Inr_Some:
  assumes "resolveSourceLocation e store frame = (store', Inr (Some f))"
  shows "\<exists>m F Fn L C. getSourceMap e store (Filename frame) = (store', Inr (Some m))
     \<and> Source e (consumer m) (Lineno frame) (Colno frame) = (F, Fn, L, C, True)
     \<and> f = zeroFrame\<lparr>Filename := F, Lineno := L, Colno := C,
                       Function := (if Fn = [] then ''?'' else Fn),
                       Module := (if smapPluginID m = [] then ''core'' else smapPluginID m)\<rparr>"
proof -
  obtain s r where g: "getSourceMap e store (Filename frame) = (s, r)"
    by (cases "getSourceMap e store (Filename frame)")
  show ?thesis
  proof (cases r)
    case (Inl err)
    with g assms show ?thesis by (simp add: resolveSourceLocation_def)
  next
    case (Inr found)
    show ?thesis
    proof (cases found)
      case None
      with g Inr assms show ?thesis by (simp add: resolveSourceLocation_def)
    next
      case (Some m)
      obtain F Fn L C ok where
        src: "Source e (consumer m) (Lineno frame) (Colno frame) = (F, Fn, L, C, ok)"
        by (cases "Source e (consumer m) (Lineno frame) (Colno frame)")
      from g Inr Some src assms have "ok" "s = store'"
        "f = zeroFrame\<lparr>Filename := F, Lineno := L, Colno := C,
                       Function := (if Fn = [] then ''?'' else Fn),
                       Module := (if smapPluginID m = [] then ''core'' else smapPluginID m)\<rparr>"
        by (auto simp: resolveSourceLocation_def Let_def split: if_splits)
      with g Inr Some src show ?thesis by simp
    qed
  qed
qed

lemma resolve_cached:
  "cache store (Filename frame) = Some (Some m) \<Longrightarrow>
   resolveSourceLocation e store frame =
     (store, case Source e (consumer m) (Lineno frame) (Colno frame) of
        (F, Fn, L, C, ok) \<Rightarrow>
          if ok then Inr (Some (zeroFrame\<lparr>Filename := F, Lineno := L, Colno := C,
                       Function := (if Fn = [] then ''?'' else Fn),
                       Module := (if smapPluginID m = [] then ''core'' else smapPluginID m)\<rparr>))
          else Inr None)"
  by (auto simp: resolveSourceLocation_def getSourceMap_cached Let_def split: prod.splits)

lemma resolve_cached_None:
  "cache store (Filename frame) = Some None \<Longrightarrow>
   resolveSourceLocation e store frame = (store, Inr None)"
  by (simp add: resolveSourceLocation_def getSourceMap_cached)

section \<open>The claims\<close>

subsection \<open>Round trip through a cached map\<close>




subsection \<open>Negative entries\<close>

text \<open>
  Claim C2. Take a URL with no cache entry whose location is unknown (its path has neither
  prefix or, more generally, the location guess returns none) or whose map file the reader
  reports as not existing. Then \<^verbatim>\<open>getSourceMap\<close> returns none without error and the cache
  holds a negative entry for the URL. Through any later sequence of lookups on the store, in
  whatever surroundings, the history gains no event for this URL (no guess, no read, no
  parse), and a lookup of the URL keeps returning none.
\<close>

theorem getSourceMap_negative_entry:
  fixes e e' :: "('w, 'c) env" and store :: "('w, 'c) SourceMapStore" and u :: string
  defines "store' \<equiv> fst (getSourceMap e store u)"
  assumes miss: "cache store u = None"
      and why: "(\<exists>p. url_Parse e u = Inr p \<and> \<not> prefix ''/public/build/'' p
                      \<and> \<not> prefix ''/public/plugins/'' p)
              \<or> guessSourceMapLocation e store u = Inr None
              \<or> (\<exists>loc err. guessSourceMapLocation e store u = Inr (Some loc)
                    \<and> readSourceMap store (world e) (dir loc) (readerPath (path loc)) = Inl err
                    \<and> os_IsNotExist err)"
  shows "snd (getSourceMap e store u) = Inr None
       \<and> cache store' u = Some None
       \<and> (\<exists>new. history (getSourceMaps calls store') = history store' @ new
                \<and> (\<forall>ev \<in> set new. eventURL ev \<noteq> u))
       \<and> getSourceMap e' (getSourceMaps calls store') u = (getSourceMaps calls store', Inr None)"
proof -
  have res: "snd (getSourceMap e store u) = Inr None \<and> cache store' u = Some None"
    using why
  proof (elim disjE exE conjE)
    fix p assume "url_Parse e u = Inr p" "\<not> prefix ''/public/build/'' p"
      "\<not> prefix ''/public/plugins/'' p"
    then have "guessSourceMapLocation e store u = Inr None" by (rule guess_unknown)
    with miss show ?thesis by (simp add: store'_def getSourceMap_unknown)
  next
    assume "guessSourceMapLocation e store u = Inr None"
    with miss show ?thesis by (simp add: store'_def getSourceMap_unknown)
  next
    fix loc err
    assume "guessSourceMapLocation e store u = Inr (Some loc)"
      "readSourceMap store (world e) (dir loc) (readerPath (path loc)) = Inl err"
      "os_IsNotExist err"
    with miss show ?thesis by (simp add: store'_def getSourceMap_not_found)
  qed
  then have c: "cache store' u = Some None" by simp
  have later: "cache (getSourceMaps calls store') u = Some None"
    using c by (rule getSourceMaps_cache_kept)
  from res getSourceMaps_history [OF c] getSourceMap_cached [OF later]
  show ?thesis by simp
qed

text \<open>
  C2 at work: \<^verbatim>\<open>/favicon.ico\<close> has neither prefix, and the map of
  \<^verbatim>\<open>/public/build/missing.js\<close> is not among the files.
\<close>

theorem getSourceMap_negative_entry_witness:
  "cache demoStore ''/favicon.ico'' = None
   \<and> url_Parse demoEnv ''/favicon.ico'' = Inr ''/favicon.ico''
   \<and> \<not> prefix ''/public/build/'' ''/favicon.ico'' \<and> \<not> prefix ''/public/plugins/'' ''/favicon.ico''
   \<and> snd (getSourceMap demoEnv demoStore ''/favicon.ico'') = Inr None
   \<and> cache (fst (getSourceMap demoEnv demoStore ''/favicon.ico'')) ''/favicon.ico'' = Some None
   \<and> snd (getSourceMap demoLaterEnv
            (getSourceMaps [(demoEnv, ''/public/build/app.js''), (demoLaterEnv, ''/favicon.ico'')]
               (fst (getSourceMap demoEnv demoStore ''/favicon.ico''))) ''/favicon.ico'') = Inr None
   \<and> cache demoStore ''/public/build/missing.js'' = None
   \<and> guessSourceMapLocation demoEnv demoStore ''/public/build/missing.js''
        = Inr (Some \<lparr>dir = ''/usr/share/grafana/public'', path = ''build/missing.js.map'',
                     pluginID = []\<rparr>)
   \<and> readSourceMap demoStore (world demoEnv) ''/usr/share/grafana/public''
        (readerPath ''build/missing.js.map'') = Inl (NotExist ''build/missing.js.map'')
   \<and> snd (getSourceMap demoEnv demoStore ''/public/build/missing.js'') = Inr None
   \<and> cache (fst (getSourceMap demoEnv demoStore ''/public/build/missing.js''))
        ''/public/build/missing.js'' = Some None"
proof -
  have a1: "cache demoStore ''/favicon.ico'' = None" by code_simp
  have a2: "url_Parse demoEnv ''/favicon.ico'' = Inr ''/favicon.ico''" by code_simp
  have a3: "\<not> prefix ''/public/build/'' ''/favicon.ico''"
    "\<not> prefix ''/public/plugins/'' ''/favicon.ico''" by simp_all
  have b1: "cache demoStore ''/public/build/missing.js'' = None" by code_simp
  have b2: "guessSourceMapLocation demoEnv demoStore ''/public/build/missing.js''
        = Inr (Some \<lparr>dir = ''/usr/share/grafana/public'', path = ''build/missing.js.map'',
                     pluginID = []\<rparr>)" by code_simp
  have b3: "readSourceMap demoStore (world demoEnv) ''/usr/share/grafana/public''
        (readerPath ''build/missing.js.map'') = Inl (NotExist ''build/missing.js.map'')"
    by code_simp
  from a2 a3 have a: "(\<exists>p. url_Parse demoEnv ''/favicon.ico'' = Inr p
        \<and> \<not> prefix ''/public/build/'' p \<and> \<not> prefix ''/public/plugins/'' p)
     \<or> guessSourceMapLocation demoEnv demoStore ''/favicon.ico'' = Inr None
     \<or> (\<exists>loc err. guessSourceMapLocation demoEnv demoStore ''/favicon.ico'' = Inr (Some loc)
           \<and> readSourceMap demoStore (world demoEnv) (dir loc) (readerPath (path loc)) = Inl err
           \<and> os_IsNotExist err)"
    by blast
  from b2 b3 have b: "(\<exists>p. url_Parse demoEnv ''/public/build/missing.js'' = Inr p
        \<and> \<not> prefix ''/public/build/'' p \<and> \<not> prefix ''/public/plugins/'' p)
     \<or> guessSourceMapLocation demoEnv demoStore ''/public/build/missing.js'' = Inr None
     \<or> (\<exists>loc err. guessSourceMapLocation demoEnv demoStore ''/public/build/missing.js''
             = Inr (Some loc)
           \<and> readSourceMap demoStore (world demoEnv) (dir loc) (readerPath (path loc)) = Inl err
           \<and> os_IsNotExist err)"
    by (intro disjI2) (rule exI [of _ "\<lparr>dir = ''/usr/share/grafana/public'',
          path = ''build/missing.js.map'', pluginID = []\<rparr>"],
        rule exI [of _ "NotExist ''build/missing.js.map''"], simp)
  from getSourceMap_negative_entry [OF a1 a,
      of "[(demoEnv, ''/public/build/app.js''), (demoLaterEnv, ''/favicon.ico'')]" demoLaterEnv]
    getSourceMap_negative_entry [OF b1 b]
    a1 a2 a3 b1 b2 b3
  show ?thesis by simp
qed

subsection \<open>Cache hits\<close>

text \<open>
  Claim C3. When a URL has a cache entry \<open>r\<close>, positive or negative, \<^verbatim>\<open>getSourceMap\<close>
  returns \<open>r\<close> and the store unchanged, history included: no guess, no read, no parse.
  Hence resolving a frame with that URL leaves the store unchanged too, and resolving it a
  second time gives the same result, also in other surroundings as long as the map library
  is the same.
\<close>

theorem getSourceMap_cache_hit:
  assumes "cache store u = Some r"
  shows "getSourceMap e store u = (store, Inr r)
       \<and> (Filename frame = u \<longrightarrow>
            fst (resolveSourceLocation e store frame) = store
          \<and> (Source e' = Source e \<longrightarrow>
               resolveSourceLocation e' (fst (resolveSourceLocation e store frame)) frame
                 = resolveSourceLocation e store frame))"
proof (cases r)
  case None
  with assms show ?thesis by (simp add: getSourceMap_cached resolve_cached_None)
next
  case (Some m)
  with assms show ?thesis by (simp add: getSourceMap_cached resolve_cached)
qed

text \<open>C3 at work, on the store that holds the core map.\<close>

theorem getSourceMap_cache_hit_witness:
  "cache demoLoaded ''/public/build/app.js'' = Some (Some demoCoreMap)
   \<and> getSourceMap demoEnv demoLoaded ''/public/build/app.js'' = (demoLoaded, Inr (Some demoCoreMap))
   \<and> Filename demoFrame = ''/public/build/app.js''
   \<and> fst (resolveSourceLocation demoEnv demoLoaded demoFrame) = demoLoaded
   \<and> resolveSourceLocation demoLaterEnv (fst (resolveSourceLocation demoEnv demoLoaded demoFrame))
         demoFrame = resolveSourceLocation demoEnv demoLoaded demoFrame"
proof -
  have c: "cache demoLoaded ''/public/build/app.js'' = Some (Some demoCoreMap)"
    by code_simp
  have f: "Filename demoFrame = ''/public/build/app.js''"
    by (simp add: demoFrame_def)
  have s: "Source demoLaterEnv = Source demoEnv"
    by (simp add: demoLaterEnv_def)
  from getSourceMap_cache_hit [OF c, of demoEnv demoFrame demoLaterEnv] c f s
  show ?thesis by auto
qed

subsection \<open>Failures are not cached\<close>

text \<open>
  Claim C4. Take a URL with no cache entry and a guessed location. When the reader fails
  with an error that is not "does not exist", or the reader succeeds and the parser rejects
  the bytes, \<^verbatim>\<open>getSourceMap\<close> returns that error and the cache is exactly what it was, so
  the URL still has no entry. The next lookup of the URL guesses again and calls the reader
  again, and calls the parser again whenever the reader delivers bytes.
\<close>

theorem getSourceMap_failure_not_cached:
  fixes e e2 :: "('w, 'c) env" and store :: "('w, 'c) SourceMapStore" and u :: string
  defines "store' \<equiv> fst (getSourceMap e store u)"
  assumes miss: "cache store u = None"
      and loc: "guessSourceMapLocation e store u = Inr (Some loc)"
      and fails: "(readSourceMap store (world e) (dir loc) (readerPath (path loc)) = Inl err
                     \<and> \<not> os_IsNotExist err)
                \<or> (\<exists>b. readSourceMap store (world e) (dir loc) (readerPath (path loc)) = Inr b
                     \<and> sourcemap_Parse e (u @ ''.map'') b = Inl err)"
  shows "snd (getSourceMap e store u) = Inl err
       \<and> cache store' = cache store
       \<and> (guessSourceMapLocation e2 store' u = Inr (Some loc2) \<longrightarrow>
            history (fst (getSourceMap e2 store' u)) =
              history store' @ Guessed u # Read u (dir loc2) (readerPath (path loc2)) #
                (case readSourceMap store' (world e2) (dir loc2) (readerPath (path loc2)) of
                   Inl err2 \<Rightarrow> []
                 | Inr b2 \<Rightarrow> [Parsed u (u @ ''.map'') b2]))"
proof -
  have res: "snd (getSourceMap e store u) = Inl err \<and> cache store' = cache store"
    using fails
  proof (elim disjE exE conjE)
    assume "readSourceMap store (world e) (dir loc) (readerPath (path loc)) = Inl err"
      "\<not> os_IsNotExist err"
    with miss loc show ?thesis by (simp add: store'_def getSourceMap_read_error)
  next
    fix b
    assume "readSourceMap store (world e) (dir loc) (readerPath (path loc)) = Inr b"
      "sourcemap_Parse e (u @ ''.map'') b = Inl err"
    with miss loc show ?thesis by (simp add: store'_def getSourceMap_parse_error)
  qed
  then have "cache store' u = None" using miss by simp
  then have "guessSourceMapLocation e2 store' u = Inr (Some loc2) \<longrightarrow>
            history (fst (getSourceMap e2 store' u)) =
              history store' @ Guessed u # Read u (dir loc2) (readerPath (path loc2)) #
                (case readSourceMap store' (world e2) (dir loc2) (readerPath (path loc2)) of
                   Inl err2 \<Rightarrow> []
                 | Inr b2 \<Rightarrow> [Parsed u (u @ ''.map'') b2])"
    by (simp add: getSourceMap_miss_history)
  with res show ?thesis by simp
qed

text \<open>
  C4 at work: the map of \<^verbatim>\<open>locked.js\<close> cannot be read at first and is read and parsed on
  the second attempt; the map of \<^verbatim>\<open>broken.js\<close> does not parse.
\<close>

theorem getSourceMap_failure_not_cached_witness:
  "cache demoStore ''/public/build/locked.js'' = None
   \<and> guessSourceMapLocation demoEnv demoStore ''/public/build/locked.js''
        = Inr (Some \<lparr>dir = ''/usr/share/grafana/public'', path = ''build/locked.js.map'',
                     pluginID = []\<rparr>)
   \<and> readSourceMap demoStore (world demoEnv) ''/usr/share/grafana/public''
        (readerPath ''build/locked.js.map'') = Inl (OtherError ''permission denied'')
   \<and> \<not> os_IsNotExist (OtherError ''permission denied'')
   \<and> snd (getSourceMap demoEnv demoStore ''/public/build/locked.js'')
        = Inl (OtherError ''permission denied'')
   \<and> cache (fst (getSourceMap demoEnv demoStore ''/public/build/locked.js'')) = cache demoStore
   \<and> history (fst (getSourceMap demoLaterEnv
                  (fst (getSourceMap demoEnv demoStore ''/public/build/locked.js''))
                  ''/public/build/locked.js''))
        = [Guessed ''/public/build/locked.js'',
           Read ''/public/build/locked.js'' ''/usr/share/grafana/public'' ''build/locked.js.map'',
           Guessed ''/public/build/locked.js'',
           Read ''/public/build/locked.js'' ''/usr/share/grafana/public'' ''build/locked.js.map'',
           Parsed ''/public/build/locked.js'' ''/public/build/locked.js.map'' ''core map'']
   \<and> cache demoStore ''/public/build/broken.js'' = None
   \<and> guessSourceMapLocation demoEnv demoStore ''/public/build/broken.js''
        = Inr (Some \<lparr>dir = ''/usr/share/grafana/public'', path = ''build/broken.js.map'',
                     pluginID = []\<rparr>)
   \<and> readSourceMap demoStore (world demoEnv) ''/usr/share/grafana/public''
        (readerPath ''build/broken.js.map'') = Inr ''{''
   \<and> sourcemap_Parse demoEnv (''/public/build/broken.js'' @ ''.map'') ''{''
        = Inl (OtherError ''sourcemap: invalid JSON'')
   \<and> snd (getSourceMap demoEnv demoStore ''/public/build/broken.js'')
        = Inl (OtherError ''sourcemap: invalid JSON'')
   \<and> cache (fst (getSourceMap demoEnv demoStore ''/public/build/broken.js'')) = cache demoStore"
proof -
  let ?loc = "\<lparr>dir = ''/usr/share/grafana/public'', path = ''build/locked.js.map'',
               pluginID = []\<rparr>"
  let ?loc' = "\<lparr>dir = ''/usr/share/grafana/public'', path = ''build/broken.js.map'',
               pluginID = []\<rparr>"
  let ?s = "fst (getSourceMap demoEnv demoStore ''/public/build/locked.js'')"
  have a1: "cache demoStore ''/public/build/locked.js'' = None" by code_simp
  have a2: "guessSourceMapLocation demoEnv demoStore ''/public/build/locked.js'' = Inr (Some ?loc)"
    by code_simp
  have a3: "readSourceMap demoStore (world demoEnv) ''/usr/share/grafana/public''
        (readerPath ''build/locked.js.map'') = Inl (OtherError ''permission denied'')"
    by code_simp
  have a4: "guessSourceMapLocation demoLaterEnv ?s ''/public/build/locked.js'' = Inr (Some ?loc)"
    by code_simp
  have a5: "readSourceMap ?s (world demoLaterEnv) ''/usr/share/grafana/public''
        (readerPath ''build/locked.js.map'') = Inr ''core map''"
    by code_simp
  have a6: "history ?s = [Guessed ''/public/build/locked.js'',
           Read ''/public/build/locked.js'' ''/usr/share/grafana/public'' ''build/locked.js.map'']"
    by code_simp
  have a7: "readerPath ''build/locked.js.map'' = ''build/locked.js.map''" by code_simp
  have b1: "cache demoStore ''/public/build/broken.js'' = None" by code_simp
  have b2: "guessSourceMapLocation demoEnv demoStore ''/public/build/broken.js'' = Inr (Some ?loc')"
    by code_simp
  have b3: "readSourceMap demoStore (world demoEnv) ''/usr/share/grafana/public''
        (readerPath ''build/broken.js.map'') = Inr ''{''"
    by code_simp
  have b4: "sourcemap_Parse demoEnv (''/public/build/broken.js'' @ ''.map'') ''{''
        = Inl (OtherError ''sourcemap: invalid JSON'')"
    by code_simp
  from a3 have a: "(readSourceMap demoStore (world demoEnv) (dir ?loc) (readerPath (path ?loc))
          = Inl (OtherError ''permission denied'') \<and> \<not> os_IsNotExist (OtherError ''permission denied''))
      \<or> (\<exists>b. readSourceMap demoStore (world demoEnv) (dir ?loc) (readerPath (path ?loc)) = Inr b
            \<and> sourcemap_Parse demoEnv (''/public/build/locked.js'' @ ''.map'') b
                = Inl (OtherError ''permission denied''))"
    by simp
  from b3 b4 have b: "(readSourceMap demoStore (world demoEnv) (dir ?loc') (readerPath (path ?loc'))
          = Inl (OtherError ''sourcemap: invalid JSON'')
          \<and> \<not> os_IsNotExist (OtherError ''sourcemap: invalid JSON''))
      \<or> (\<exists>b. readSourceMap demoStore (world demoEnv) (dir ?loc') (readerPath (path ?loc')) = Inr b
            \<and> sourcemap_Parse demoEnv (''/public/build/broken.js'' @ ''.map'') b
                = Inl (OtherError ''sourcemap: invalid JSON''))"
    by simp
  from getSourceMap_failure_not_cached [OF a1 a2 a, of demoLaterEnv ?loc] a4 a5 a6 a7
  have "snd (getSourceMap demoEnv demoStore ''/public/build/locked.js'')
          = Inl (OtherError ''permission denied'')"
    "cache ?s = cache demoStore"
    "history (fst (getSourceMap demoLaterEnv ?s ''/public/build/locked.js''))
        = [Guessed ''/public/build/locked.js'',
           Read ''/public/build/locked.js'' ''/usr/share/grafana/public'' ''build/locked.js.map'',
           Guessed ''/public/build/locked.js'',
           Read ''/public/build/locked.js'' ''/usr/share/grafana/public'' ''build/locked.js.map'',
           Parsed ''/public/build/locked.js'' ''/public/build/locked.js.map'' ''core map'']"
    by simp_all
  moreover from getSourceMap_failure_not_cached [OF b1 b2 b]
  have "snd (getSourceMap demoEnv demoStore ''/public/build/broken.js'')
          = Inl (OtherError ''sourcemap: invalid JSON'')"
    "cache (fst (getSourceMap demoEnv demoStore ''/public/build/broken.js'')) = cache demoStore"
    by simp_all
  ultimately show ?thesis using a1 a2 a3 b1 b2 b3 b4 by simp
qed

subsection \<open>The location of core assets\<close>

text \<open>
  Claim C5. \<^verbatim>\<open>guessSourceMapLocation\<close> fails exactly when \<^verbatim>\<open>url.Parse\<close> does, with the
  same error. For a URL whose path is \<^verbatim>\<open>/public/build/\<close> followed by \<open>rest\<close>, it returns the
  configured static root as directory, the path \<^verbatim>\<open>filepath.Join("build", rest) + ".map"\<close>,
  and no plugin. When \<open>rest\<close> consists of proper path elements, that path is \<^verbatim>\<open>build/\<close>,
  \<open>rest\<close> and \<^verbatim>\<open>.map\<close> put together.
\<close>

theorem guess_build_location:
  "(guessSourceMapLocation e store u = Inl err \<longleftrightarrow> url_Parse e u = Inl err)
   \<and> (url_Parse e u = Inr (''/public/build/'' @ rest) \<longrightarrow>
        guessSourceMapLocation e store u =
          Inr (Some \<lparr>dir = StaticRootPath (cfg store),
                     path = filepath_Join [''build'', rest] @ ''.map'',
                     pluginID = []\<rparr>))
   \<and> (url_Parse e u = Inr (''/public/build/'' @ joinSep es) \<and> es \<noteq> []
          \<and> (\<forall>x \<in> set es. properElem x) \<longrightarrow>
        guessSourceMapLocation e store u =
          Inr (Some \<lparr>dir = StaticRootPath (cfg store),
                     path = ''build/'' @ joinSep es @ ''.map'',
                     pluginID = []\<rparr>))"
proof (intro conjI impI)
  show "guessSourceMapLocation e store u = Inl err \<longleftrightarrow> url_Parse e u = Inl err"
    by (auto simp: guessSourceMapLocation_def split: sum.splits)
next
  assume "url_Parse e u = Inr (''/public/build/'' @ rest)"
  then show "guessSourceMapLocation e store u =
          Inr (Some \<lparr>dir = StaticRootPath (cfg store),
                     path = filepath_Join [''build'', rest] @ ''.map'',
                     pluginID = []\<rparr>)"
    by (simp add: guessSourceMapLocation_def)
next
  assume "url_Parse e u = Inr (''/public/build/'' @ joinSep es) \<and> es \<noteq> []
          \<and> (\<forall>x \<in> set es. properElem x)"
  then show "guessSourceMapLocation e store u =
          Inr (Some \<lparr>dir = StaticRootPath (cfg store),
                     path = ''build/'' @ joinSep es @ ''.map'',
                     pluginID = []\<rparr>)"
    by (intro guess_build_plain) simp_all
qed

text \<open>
  C5 at work: a URL that does not parse, \<^verbatim>\<open>/public/build/app.js\<close>, and an asset in a
  subdirectory.
\<close>

theorem guess_build_location_witness:
  "url_Parse demoEnv ''%zz'' = Inl (OtherError ''invalid URL escape'')
   \<and> guessSourceMapLocation demoEnv demoStore ''%zz'' = Inl (OtherError ''invalid URL escape'')
   \<and> url_Parse demoEnv ''/public/build/app.js'' = Inr (''/public/build/'' @ ''app.js'')
   \<and> guessSourceMapLocation demoEnv demoStore ''/public/build/app.js''
        = Inr (Some \<lparr>dir = ''/usr/share/grafana/public'', path = ''build/app.js.map'',
                     pluginID = []\<rparr>)
   \<and> url_Parse demoEnv ''/public/build/vendor/d3/d3.min.js''
        = Inr (''/public/build/'' @ joinSep [''vendor'', ''d3'', ''d3.min.js''])
   \<and> properElem ''vendor'' \<and> properElem ''d3'' \<and> properElem ''d3.min.js''
   \<and> guessSourceMapLocation demoEnv demoStore ''/public/build/vendor/d3/d3.min.js''
        = Inr (Some \<lparr>dir = ''/usr/share/grafana/public'',
                     path = ''build/vendor/d3/d3.min.js.map'', pluginID = []\<rparr>)"
proof -
  have a: "url_Parse demoEnv ''%zz'' = Inl (OtherError ''invalid URL escape'')"
    by code_simp
  have b: "url_Parse demoEnv ''/public/build/app.js'' = Inr (''/public/build/'' @ ''app.js'')"
    by code_simp
  have c: "StaticRootPath (cfg demoStore) = ''/usr/share/grafana/public''"
    by code_simp
  have d: "filepath_Join [''build'', ''app.js''] @ ''.map'' = ''build/app.js.map''"
    by code_simp
  have f: "url_Parse demoEnv ''/public/build/vendor/d3/d3.min.js''
        = Inr (''/public/build/'' @ joinSep [''vendor'', ''d3'', ''d3.min.js''])"
    by code_simp
  have g: "properElem ''vendor''" "properElem ''d3''" "properElem ''d3.min.js''"
    by (simp_all add: properElem_def)
  from guess_build_location [of demoEnv demoStore "''%zz''" "OtherError ''invalid URL escape''"] a
  have "guessSourceMapLocation demoEnv demoStore ''%zz'' = Inl (OtherError ''invalid URL escape'')"
    by simp
  moreover
  from guess_build_location [of demoEnv demoStore "''/public/build/app.js''" _ "''app.js''"] b c d
  have "guessSourceMapLocation demoEnv demoStore ''/public/build/app.js''
        = Inr (Some \<lparr>dir = ''/usr/share/grafana/public'', path = ''build/app.js.map'',
                     pluginID = []\<rparr>)"
    by simp
  moreover
  from guess_build_location [of demoEnv demoStore "''/public/build/vendor/d3/d3.min.js''" _ _
      "[''vendor'', ''d3'', ''d3.min.js'']"] f g c
  have "guessSourceMapLocation demoEnv demoStore ''/public/build/vendor/d3/d3.min.js''
        = Inr (Some \<lparr>dir = ''/usr/share/grafana/public'',
                     path = ''build/vendor/d3/d3.min.js.map'', pluginID = []\<rparr>)"
    by simp
  ultimately show ?thesis using a b f g by simp
qed

subsection \<open>Module and function of a resolved frame\<close>

text \<open>
  Claim C6. Whenever a frame is resolved, the cache holds a map \<open>m\<close> for its URL, with a
  mapping at the frame's position, such that the module of the resolved frame is \<^verbatim>\<open>core\<close>
  when \<open>m\<close> has no plugin identifier and that identifier otherwise, and its function is
  \<^verbatim>\<open>?\<close> when the mapping's name is empty and that name otherwise. When the map was loaded by
  this very call, its plugin identifier is the one of the guessed location.
\<close>

theorem resolved_module_function:
  assumes "resolveSourceLocation e store frame = (store', Inr (Some f))"
  shows "\<exists>m F Fn L C.
           cache store' (Filename frame) = Some (Some m)
         \<and> Source e (consumer m) (Lineno frame) (Colno frame) = (F, Fn, L, C, True)
         \<and> Module f = (if smapPluginID m = [] then ''core'' else smapPluginID m)
         \<and> Function f = (if Fn = [] then ''?'' else Fn)
         \<and> (cache store (Filename frame) = None \<longrightarrow>
              (\<exists>loc. guessSourceMapLocation e store (Filename frame) = Inr (Some loc)
                    \<and> smapPluginID m = pluginID loc))"
proof -
  from resolve_Inr_Some [OF assms] obtain m F Fn L C where
    g: "getSourceMap e store (Filename frame) = (store', Inr (Some m))" and
    s: "Source e (consumer m) (Lineno frame) (Colno frame) = (F, Fn, L, C, True)" and
    f: "f = zeroFrame\<lparr>Filename := F, Lineno := L, Colno := C,
                       Function := (if Fn = [] then ''?'' else Fn),
                       Module := (if smapPluginID m = [] then ''core'' else smapPluginID m)\<rparr>"
    by blast
  have c: "cache store' (Filename frame) = Some (Some m)"
    using g by (rule getSourceMap_Some_cached)
  have p: "cache store (Filename frame) = None \<longrightarrow>
              (\<exists>loc. guessSourceMapLocation e store (Filename frame) = Inr (Some loc)
                    \<and> smapPluginID m = pluginID loc)"
    using g getSourceMap_fresh_pluginID by blast
  from f have "Module f = (if smapPluginID m = [] then ''core'' else smapPluginID m)"
    "Function f = (if Fn = [] then ''?'' else Fn)" by simp_all
  with c s p show ?thesis by (intro exI [of _ m] exI [of _ F] exI [of _ Fn] exI [of _ L] exI [of _ C]) simp
qed

text \<open>
  C6 at work: with the route of \<^verbatim>\<open>acme-panel\<close> registered, a frame of
  \<^verbatim>\<open>/public/plugins/acme-panel/module.js\<close> resolves with module \<^verbatim>\<open>acme-panel\<close>; a frame of
  \<^verbatim>\<open>/public/build/app.js\<close> at a position without a name resolves with module \<^verbatim>\<open>core\<close> and
  function \<^verbatim>\<open>?\<close>.
\<close>

theorem resolved_module_function_witness:
  "resolveSourceLocation demoEnv demoStore
     (zeroFrame\<lparr>Filename := ''/public/plugins/acme-panel/module.js'', Lineno := 3, Colno := 1\<rparr>)
     = (fst (resolveSourceLocation demoEnv demoStore
          (zeroFrame\<lparr>Filename := ''/public/plugins/acme-panel/module.js'', Lineno := 3,
                      Colno := 1\<rparr>)),
        Inr (Some (zeroFrame\<lparr>Filename := ''src/module.ts'', Lineno := 30, Colno := 6,
                             Function := ''init'', Module := ''acme-panel''\<rparr>)))
   \<and> (\<exists>m. cache (fst (resolveSourceLocation demoEnv demoStore
          (zeroFrame\<lparr>Filename := ''/public/plugins/acme-panel/module.js'', Lineno := 3,
                      Colno := 1\<rparr>))) ''/public/plugins/acme-panel/module.js'' = Some (Some m)
          \<and> smapPluginID m = ''acme-panel'')
   \<and> resolveSourceLocation demoEnv demoStore
     (zeroFrame\<lparr>Filename := ''/public/build/app.js'', Lineno := 2, Colno := 7\<rparr>)
     = (fst (resolveSourceLocation demoEnv demoStore
          (zeroFrame\<lparr>Filename := ''/public/build/app.js'', Lineno := 2, Colno := 7\<rparr>)),
        Inr (Some (zeroFrame\<lparr>Filename := ''app/main.ts'', Lineno := 20, Colno := 4,
                             Function := ''?'', Module := ''core''\<rparr>)))
   \<and> (\<exists>m. cache (fst (resolveSourceLocation demoEnv demoStore
          (zeroFrame\<lparr>Filename := ''/public/build/app.js'', Lineno := 2, Colno := 7\<rparr>)))
            ''/public/build/app.js'' = Some (Some m)
          \<and> smapPluginID m = [])"
proof -
  let ?p = "zeroFrame\<lparr>Filename := ''/public/plugins/acme-panel/module.js'', Lineno := 3,
                      Colno := 1\<rparr>"
  let ?c = "zeroFrame\<lparr>Filename := ''/public/build/app.js'', Lineno := 2, Colno := 7\<rparr>"
  let ?fp = "zeroFrame\<lparr>Filename := ''src/module.ts'', Lineno := 30, Colno := 6,
                             Function := ''init'', Module := ''acme-panel''\<rparr>"
  let ?fc = "zeroFrame\<lparr>Filename := ''app/main.ts'', Lineno := 20, Colno := 4,
                             Function := ''?'', Module := ''core''\<rparr>"
  have "snd (resolveSourceLocation demoEnv demoStore ?p) = Inr (Some ?fp)"
    by code_simp
  then have p: "resolveSourceLocation demoEnv demoStore ?p
      = (fst (resolveSourceLocation demoEnv demoStore ?p), Inr (Some ?fp))"
    by (simp add: prod_eq_iff)
  have "snd (resolveSourceLocation demoEnv demoStore ?c) = Inr (Some ?fc)"
    by code_simp
  then have c: "resolveSourceLocation demoEnv demoStore ?c
      = (fst (resolveSourceLocation demoEnv demoStore ?c), Inr (Some ?fc))"
    by (simp add: prod_eq_iff)
  have np: "Filename ?p = ''/public/plugins/acme-panel/module.js''"
    and nc: "Filename ?c = ''/public/build/app.js''"
    by simp_all
  have mp: "cache demoStore ''/public/plugins/acme-panel/module.js'' = None"
    by code_simp
  have mc: "cache demoStore ''/public/build/app.js'' = None"
    by code_simp
  have gp: "guessSourceMapLocation demoEnv demoStore ''/public/plugins/acme-panel/module.js''
      = Inr (Some \<lparr>dir = ''/var/lib/grafana/plugins/acme-panel'', path = ''/module.js.map'',
                   pluginID = ''acme-panel''\<rparr>)"
    by code_simp
  have gc: "guessSourceMapLocation demoEnv demoStore ''/public/build/app.js''
      = Inr (Some \<lparr>dir = ''/usr/share/grafana/public'', path = ''build/app.js.map'',
                   pluginID = []\<rparr>)"
    by code_simp
  from resolved_module_function [OF p] obtain m where
    "cache (fst (resolveSourceLocation demoEnv demoStore ?p)) (Filename ?p) = Some (Some m)"
    "cache demoStore (Filename ?p) = None \<longrightarrow>
       (\<exists>loc. guessSourceMapLocation demoEnv demoStore (Filename ?p) = Inr (Some loc)
             \<and> smapPluginID m = pluginID loc)"
    by (elim exE conjE) (erule (1) that)
  with np mp gp have "cache (fst (resolveSourceLocation demoEnv demoStore ?p))
       ''/public/plugins/acme-panel/module.js'' = Some (Some m) \<and> smapPluginID m = ''acme-panel''"
    by auto
  then have ep: "\<exists>m. cache (fst (resolveSourceLocation demoEnv demoStore ?p))
       ''/public/plugins/acme-panel/module.js'' = Some (Some m) \<and> smapPluginID m = ''acme-panel''"
    by (intro exI [of _ m])
  from resolved_module_function [OF c] obtain m' where
    "cache (fst (resolveSourceLocation demoEnv demoStore ?c)) (Filename ?c) = Some (Some m')"
    "cache demoStore (Filename ?c) = None \<longrightarrow>
       (\<exists>loc. guessSourceMapLocation demoEnv demoStore (Filename ?c) = Inr (Some loc)
             \<and> smapPluginID m' = pluginID loc)"
    by (elim exE conjE) (erule (1) that)
  with nc mc gc have "cache (fst (resolveSourceLocation demoEnv demoStore ?c))
       ''/public/build/app.js'' = Some (Some m') \<and> smapPluginID m' = []"
    by auto
  then have ec: "\<exists>m. cache (fst (resolveSourceLocation demoEnv demoStore ?c))
       ''/public/build/app.js'' = Some (Some m) \<and> smapPluginID m = []"
    by (intro exI [of _ m'])
  from p ep c ec show ?thesis by (intro conjI)
qed

subsection \<open>The path handed to the reader\<close>

text \<open>
  Claim C7 says that the normalised path never leaves the directory. For the URL
  \<^verbatim>\<open>/public/build/../../etc/passwd\<close> the guessed path is \<^verbatim>\<open>../etc/passwd.map\<close>: it does
  not start with a separator, so lines 103 to 105 leave it alone and \<^verbatim>\<open>filepath.Clean\<close>
  keeps the leading \<^verbatim>\<open>..\<close>; the reader is called with the static root and
  \<^verbatim>\<open>../etc/passwd.map\<close>. Joined to the static root as it is, that path names a file
  outside it; \<^verbatim>\<open>http.Dir\<close> in the production reader roots it first and opens a file
  inside.
\<close>

theorem reader_path_leaves_directory:
  "url_Parse demoEnv ''/public/build/../../etc/passwd'' = Inr ''/public/build/../../etc/passwd''
   \<and> guessSourceMapLocation demoEnv demoStore ''/public/build/../../etc/passwd''
       = Inr (Some \<lparr>dir = ''/usr/share/grafana/public'', path = ''../etc/passwd.map'',
                    pluginID = []\<rparr>)
   \<and> readerPath ''../etc/passwd.map'' = ''../etc/passwd.map''
   \<and> history (fst (getSourceMap demoEnv demoStore ''/public/build/../../etc/passwd''))
       = [Guessed ''/public/build/../../etc/passwd'',
          Read ''/public/build/../../etc/passwd'' ''/usr/share/grafana/public''
            ''../etc/passwd.map'']
   \<and> filepath_Join [''/usr/share/grafana/public'', ''../etc/passwd.map'']
       = ''/usr/share/grafana/etc/passwd.map''
   \<and> filepath_Join [''/usr/share/grafana/public'',
                     filepath_Clean (''/'' @ ''../etc/passwd.map'')]
       = ''/usr/share/grafana/public/etc/passwd.map''"
  by code_simp

subsection \<open>Plugin routes match by string prefix\<close>

text \<open>
  Claim C9. A route matches when the URL's path starts with \<^verbatim>\<open>/public/plugins/\<close> followed by
  the route's plugin identifier \<open>i\<close>; nothing is asked of what comes after the identifier.
  So for any \<open>rest\<close>, a path \<^verbatim>\<open>/public/plugins/\<close>\<open>i\<close>\<open>rest\<close> matches a first route of plugin
  \<open>i\<close> whatever routes follow: the location is in that route's directory, attributed to
  \<open>i\<close>, with path \<open>rest\<close> plus \<^verbatim>\<open>.map\<close>. With \<open>i\<close> = \<^verbatim>\<open>acme\<close> and \<open>rest\<close> =
  \<^verbatim>\<open>-panel/module.js\<close>, a URL of plugin \<^verbatim>\<open>acme-panel\<close> is attributed to \<^verbatim>\<open>acme\<close>, with the
  path \<^verbatim>\<open>-panel/module.js.map\<close> that remains after the shorter prefix.
\<close>

theorem plugin_prefix_without_boundary:
  assumes "url_Parse e u = Inr (''/public/plugins/'' @ i @ rest)"
      and "StaticRoutes e = \<lparr>Directory = d, PluginId = i\<rparr> # routes"
      and "properElem i"
  shows "guessSourceMapLocation e store u =
           Inr (Some \<lparr>dir = d, path = rest @ ''.map'', pluginID = i\<rparr>)"
proof -
  from assms(3) have "filepath_Join [''/public/plugins/'', i] = ''/public/plugins/'' @ i"
    by (rule Join_plugin_prefix)
  with assms(1,2) show ?thesis by (simp add: guessSourceMapLocation_def)
qed

text \<open>
  C9 at work: \<^verbatim>\<open>acme\<close> is registered ahead of \<^verbatim>\<open>acme-panel\<close>, and a URL of
  \<^verbatim>\<open>acme-panel\<close> goes to \<^verbatim>\<open>acme\<close>.
\<close>

theorem plugin_prefix_without_boundary_witness:
  "url_Parse demoRoutesEnv ''/public/plugins/acme-panel/module.js''
     = Inr (''/public/plugins/'' @ ''acme'' @ ''-panel/module.js'')
   \<and> StaticRoutes demoRoutesEnv
     = \<lparr>Directory = ''/var/lib/grafana/plugins/acme'', PluginId = ''acme''\<rparr>
       # [\<lparr>Directory = ''/var/lib/grafana/plugins/acme-panel'', PluginId = ''acme-panel''\<rparr>]
   \<and> properElem ''acme''
   \<and> guessSourceMapLocation demoRoutesEnv demoStore ''/public/plugins/acme-panel/module.js''
     = Inr (Some \<lparr>dir = ''/var/lib/grafana/plugins/acme'', path = ''-panel/module.js.map'',
                  pluginID = ''acme''\<rparr>)"
proof -
  have a: "url_Parse demoRoutesEnv ''/public/plugins/acme-panel/module.js''
     = Inr (''/public/plugins/'' @ ''acme'' @ ''-panel/module.js'')"
    by code_simp
  have b: "StaticRoutes demoRoutesEnv
     = \<lparr>Directory = ''/var/lib/grafana/plugins/acme'', PluginId = ''acme''\<rparr>
       # [\<lparr>Directory = ''/var/lib/grafana/plugins/acme-panel'', PluginId = ''acme-panel''\<rparr>]"
    by (simp add: demoRoutesEnv_def)
  have c: "properElem ''acme''" by (simp add: properElem_def)
  from plugin_prefix_without_boundary [OF a b c, of demoStore] a b c show ?thesis by simp
qed

subsection \<open>The resolved frame is a new value\<close>

text \<open>
  Claim C10. A resolved frame is the zero frame with file name, line, column, function and
  module set: every other field has its zero value, whatever the reported frame held there.
  The result depends on the reported frame through its file name, line and column only. The
  reported frame is passed by value; nothing of it is part of what the function returns or
  of the store.
\<close>

theorem resolved_frame_fresh:
  assumes "resolveSourceLocation e store frame = (store', Inr (Some f))"
  shows "f = zeroFrame\<lparr>Filename := Filename f, Lineno := Lineno f, Colno := Colno f,
                       Function := Function f, Module := Module f\<rparr>
       \<and> (Filename frame2 = Filename frame \<and> Lineno frame2 = Lineno frame
            \<and> Colno frame2 = Colno frame \<longrightarrow>
              resolveSourceLocation e store frame2 = resolveSourceLocation e store frame)"
proof -
  from resolve_Inr_Some [OF assms] have "f = zeroFrame\<lparr>Filename := Filename f, Lineno := Lineno f, Colno := Colno f,
                       Function := Function f, Module := Module f\<rparr>"
    by auto
  moreover have "Filename frame2 = Filename frame \<and> Lineno frame2 = Lineno frame
            \<and> Colno frame2 = Colno frame \<longrightarrow>
              resolveSourceLocation e store frame2 = resolveSourceLocation e store frame"
    unfolding resolveSourceLocation_def by (intro impI, elim conjE) simp
  ultimately show ?thesis by simp
qed

text \<open>
  C10 at work: the reported frame carries an absolute path, a context line and the in-app
  flag; the resolved frame is the same as for a frame without them.
\<close>

theorem resolved_frame_fresh_witness:
  "resolveSourceLocation demoEnv demoStore demoFrame =
     (fst (resolveSourceLocation demoEnv demoStore demoFrame),
      Inr (Some (zeroFrame\<lparr>Filename := ''app/main.ts'', Lineno := 10, Colno := 2,
                           Function := ''render'', Module := ''core''\<rparr>)))
   \<and> AbsPath demoFrame = ''https://grafana.example/public/build/app.js''
   \<and> InApp demoFrame
   \<and> resolveSourceLocation demoEnv demoStore
        (zeroFrame\<lparr>Filename := ''/public/build/app.js'', Lineno := 1, Colno := 5\<rparr>)
      = resolveSourceLocation demoEnv demoStore demoFrame"
proof -
  let ?f = "zeroFrame\<lparr>Filename := ''app/main.ts'', Lineno := 10, Colno := 2,
                           Function := ''render'', Module := ''core''\<rparr>"
  let ?frame2 = "zeroFrame\<lparr>Filename := ''/public/build/app.js'', Lineno := 1, Colno := 5\<rparr>"
  have "snd (resolveSourceLocation demoEnv demoStore demoFrame) = Inr (Some ?f)"
    by code_simp
  then have r: "resolveSourceLocation demoEnv demoStore demoFrame =
     (fst (resolveSourceLocation demoEnv demoStore demoFrame), Inr (Some ?f))"
    by (simp add: prod_eq_iff)
  have same: "Filename ?frame2 = Filename demoFrame \<and> Lineno ?frame2 = Lineno demoFrame
      \<and> Colno ?frame2 = Colno demoFrame"
    by (simp add: demoFrame_def)
  have other: "AbsPath demoFrame = ''https://grafana.example/public/build/app.js''"
    "InApp demoFrame"
    by (simp_all add: demoFrame_def)
  from resolved_frame_fresh [OF r, of ?frame2] same
  have "resolveSourceLocation demoEnv demoStore ?frame2
      = resolveSourceLocation demoEnv demoStore demoFrame"
    by blast
  with r other show ?thesis by simp
qed

end
